theory Spec2Isabelle
  imports Complex_Main
begin

section \<open>Diagnostic locator: \<open>highlightPosition\<close>\<close>

text \<open>
  Go strings and file contents are byte sequences; a byte is a \<^typ>\<open>char\<close>.
  The byte offset \<open>pos\<close> is an \<open>int64\<close> and may be negative; it is an \<^typ>\<open>int\<close>
  here.  The loop counter \<open>n\<close> stays below \<open>pos\<close>, and \<open>line\<close> and \<open>col\<close> only
  count bytes that were read, so no counter of the loop can wrap around; \<open>line\<close> and
  \<open>col\<close> are natural numbers.
\<close>

definition newline :: char where
  "newline = CHR 0x0A"

text \<open>
  The \<open>for n := int64(0); n < pos; n++\<close> loop.  The reader \<open>br\<close> is the list of bytes
  not yet read.  The state is \<open>(line, col, lastLine, thisLine)\<close>.  On the empty list
  either the loop condition is false or \<open>ReadByte\<close> returns an error and the loop
  breaks: both leave the state as it is.
\<close>

fun highlightPosition_loop ::
  "string \<Rightarrow> int \<Rightarrow> int \<Rightarrow> nat \<times> nat \<times> string \<times> string \<Rightarrow> nat \<times> nat \<times> string \<times> string" where
  "highlightPosition_loop [] n pos (line, col, lastLine, thisLine) =
     (line, col, lastLine, thisLine)"
| "highlightPosition_loop (b # br) n pos (line, col, lastLine, thisLine) =
     (if n < pos then
        (if b = newline
         then highlightPosition_loop br (n + 1) pos (line + 1, 1, thisLine, [])
         else highlightPosition_loop br (n + 1) pos (line, col + 1, lastLine, thisLine @ [b]))
      else (line, col, lastLine, thisLine))"

text \<open>\<open>fmt.Sprintf("%d", n)\<close> for a number that is not negative.\<close>

fun decimal :: "nat \<Rightarrow> string" where
  "decimal n =
     (if n < 10 then [''0123456789'' ! n]
      else decimal (n div 10) @ [''0123456789'' ! (n mod 10)])"

text \<open>\<open>%5d\<close>: the decimal digits, padded with spaces on the left to width five.\<close>

definition fmt_5d :: "nat \<Rightarrow> string" where
  "fmt_5d n = replicate (5 - length (decimal n)) CHR '' '' @ decimal n"

text \<open>\<open>%d\<close> of a signed integer.\<close>

definition fmt_d :: "int \<Rightarrow> string" where
  "fmt_d i = (if i < 0 then CHR ''-'' # decimal (nat (- i)) else decimal (nat i))"

definition highlightPosition :: "string \<Rightarrow> int \<Rightarrow> nat \<times> nat \<times> string" where
  "highlightPosition f pos =
     (case highlightPosition_loop f 0 pos (1, 0, [], []) of
        (line, col, lastLine, thisLine) \<Rightarrow>
          let highlight0 =
                (if line > 1 then fmt_5d (line - 1) @ '': '' @ lastLine @ [newline] else []);
              highlight1 = highlight0 @ fmt_5d line @ '': '' @ thisLine @ [newline];
              highlight2 = highlight1 @ replicate (col + 5) CHR '' '' @ ''^'' @ [newline]
          in (line, col, highlight2))"

section \<open>Errors\<close>

text \<open>
  Errors that come from outside the program.  \<open>*json.SyntaxError\<close> and
  \<open>*json5.SyntaxError\<close> carry a message and the field \<open>Offset\<close> (an \<open>int64\<close>); every
  other error (of a decoder, of the operating system) only has its message.
\<close>

datatype liberror =
    JsonSyntaxError string int
  | Json5SyntaxError string int
  | OtherError string

fun liberror_Error :: "liberror \<Rightarrow> string" where
  "liberror_Error (JsonSyntaxError msg Offset) = msg"
| "liberror_Error (Json5SyntaxError msg Offset) = msg"
| "liberror_Error (OtherError msg) = msg"

text \<open>
  The error values of the program: an outside error, an error of \<open>pkg/errors\<close> that
  wraps another one with a message (\<open>errors.Wrap\<close>, \<open>errors.Wrapf\<close>), and an error made by
  \<open>fmt.Errorf\<close> from its text.
\<close>

datatype error =
    Lib liberror
  | withMessage error string
  | Errorf string

fun Error :: "error \<Rightarrow> string" where
  "Error (Lib e) = liberror_Error e"
| "Error (withMessage cause msg) = msg @ '': '' @ Error cause"
| "Error (Errorf s) = s"

fun Cause :: "error \<Rightarrow> error" where
  "Cause (withMessage cause msg) = Cause cause"
| "Cause (Lib e) = Lib e"
| "Cause (Errorf s) = Errorf s"

text \<open>\<open>errors.Wrap\<close> and \<open>errors.Wrapf\<close>, which the program only calls on an error that is not nil.\<close>

definition Wrap :: "error \<Rightarrow> string \<Rightarrow> error" where
  "Wrap err message = withMessage err message"

text \<open>\<open>%v\<close> of a slice of errors: the texts, separated by one space, in brackets.\<close>

fun join_space :: "string list \<Rightarrow> string" where
  "join_space [] = []"
| "join_space [x] = x"
| "join_space (x # y # ys) = x @ '' '' @ join_space (y # ys)"

definition fmt_v :: "error list \<Rightarrow> string" where
  "fmt_v errList = ''['' @ join_space (map Error errList) @ '']''"

section \<open>The libraries and the files\<close>

text \<open>
  The decoders of \<open>encoding/json\<close>, \<open>flynn/json5\<close> and \<open>hashicorp/hcl\<close>, the verb \<open>%q\<close> of
  \<open>fmt\<close> (\<open>strconv.Quote\<close>) and the encoder of \<open>encoding/json\<close> are not part of the
  program: they are parameters.  \<open>'v\<close> is the type of the decoded values
  (\<open>interface{}\<close>).  The encoder gets its indentation \<open>(indentPrefix, indentValue)\<close> and
  returns the bytes it writes.
\<close>

record 'v library =
  json_Decode :: "string \<Rightarrow> liberror + 'v"
  json5_Decode :: "string \<Rightarrow> liberror + 'v"
  hcl_Decode :: "string \<Rightarrow> liberror + 'v"
  Sprintf_q :: "string \<Rightarrow> string"
  json_Encode :: "string \<times> string \<Rightarrow> 'v \<Rightarrow> liberror + string"

text \<open>
  What the run finds outside: the bytes of standard input, whether the temp file can be
  made and flushed, what \<open>os.Open\<close> gives for a name (an error or the content of the
  file), whether copying the file into the buffer fails, and, for the output file,
  whether \<open>os.Create\<close>, \<open>Sync\<close> and \<open>Close\<close> fail.
\<close>

record world =
  stdin :: string
  TempFile_error :: "liberror option"
  Flush_error :: "liberror option"
  Open_file :: "string \<Rightarrow> liberror + string"
  Copy_error :: "liberror option"
  Create_error :: "string \<Rightarrow> liberror option"
  Sync_error :: "liberror option"
  Close_error :: "liberror option"

text \<open>
  The fields of \<open>ParseMode\<close> and of the embedded \<open>GlobalConfig\<close> that \<open>run\<close> reads.
  (\<open>BufferSize\<close> only sizes the buffered readers and writers.)
\<close>

record ParseMode =
  InFilename :: string
  OutFilename :: string
  PrettyPrint :: bool
  InputFormat :: string
  OutputFormat :: string

section \<open>The parsers\<close>

definition ParseHCL :: "'v library \<Rightarrow> string \<Rightarrow> error + 'v" where
  "ParseHCL lib input =
     (case hcl_Decode lib input of
        Inl err \<Rightarrow> Inl (Wrap (Lib err) ''unable to decode HCL'')
      | Inr raw \<Rightarrow> Inr raw)"

definition ParseJSON :: "'v library \<Rightarrow> string \<Rightarrow> error + 'v" where
  "ParseJSON lib r =
     (case json_Decode lib r of
        Inl err \<Rightarrow> Inl (Wrap (Lib err) ''unable to decode JSON'')
      | Inr raw \<Rightarrow> Inr raw)"

definition ParseJSON5 :: "'v library \<Rightarrow> string \<Rightarrow> error + 'v" where
  "ParseJSON5 lib r =
     (case json5_Decode lib r of
        Inl err \<Rightarrow> Inl (Wrap (Lib err) ''unable to decode JSON5'')
      | Inr raw \<Rightarrow> Inr raw)"

section \<open>The conversion: \<open>run\<close>\<close>

text \<open>
  Every call of one of the three parsers is recorded, in the order of the calls, next
  to what the code computes.
\<close>

datatype parser_call = Call_ParseJSON | Call_ParseJSON5 | Call_ParseHCL

text \<open>
  The \<open>switch m.InputFormat\<close> statement either returns an error from \<open>run\<close> or is left by
  \<open>break\<close>, with the value \<open>raw\<close> and the list \<open>errList\<close> as they are at that moment.
\<close>

datatype 'v switch_outcome = Return error | Break 'v "error list"

text \<open>
  The \<open>errWrapped\<close> of the three cases.  \<open>f\<close> is the content of the input file, which
  \<open>highlightPosition\<close> reads again from its start after \<open>f.Seek(0, os.SEEK_SET)\<close>.
\<close>

definition syntax_error_message ::
  "'v library \<Rightarrow> ParseMode \<Rightarrow> string \<Rightarrow> string \<Rightarrow> int \<Rightarrow> string" where
  "syntax_error_message lib m f parseErr Offset =
     (case highlightPosition f Offset of
        (line, col, highlight) \<Rightarrow>
          ''unable to parse '' @ Sprintf_q lib (InFilename m) @ '' as ''
            @ Sprintf_q lib (InputFormat m) @ '': '' @ parseErr @ [newline]
            @ ''Syntax error at line '' @ fmt_d (int line) @ '', column '' @ fmt_d (int col)
            @ '' (offset '' @ fmt_d Offset @ ''):'' @ [newline] @ highlight)"

definition errWrapped_json :: "'v library \<Rightarrow> ParseMode \<Rightarrow> string \<Rightarrow> error \<Rightarrow> error" where
  "errWrapped_json lib m f err =
     (case Cause err of
        Lib (JsonSyntaxError msg Offset) \<Rightarrow>
          Wrap err (syntax_error_message lib m f msg Offset)
      | _ \<Rightarrow> Wrap err (''unable to parse config file as '' @ Sprintf_q lib (InputFormat m)))"

definition errWrapped_json5 :: "'v library \<Rightarrow> ParseMode \<Rightarrow> string \<Rightarrow> error \<Rightarrow> error" where
  "errWrapped_json5 lib m f err =
     (case Cause err of
        Lib (Json5SyntaxError msg Offset) \<Rightarrow>
          Wrap err (syntax_error_message lib m f msg Offset)
      | _ \<Rightarrow> Wrap err (''unable to parse config file as '' @ Sprintf_q lib (InputFormat m)))"

definition errWrapped_hcl :: "'v library \<Rightarrow> ParseMode \<Rightarrow> error \<Rightarrow> error" where
  "errWrapped_hcl lib m err =
     Wrap err (''unable to parse config file as '' @ Sprintf_q lib (InputFormat m))"

text \<open>
  The cases of the switch, from the last one up: each case that fails in detect mode
  falls through into the next one.
\<close>

definition case_default :: "'v library \<Rightarrow> ParseMode \<Rightarrow> error list \<Rightarrow> 'v switch_outcome" where
  "case_default lib m errList =
     (if length errList > 0
      then Return (Errorf (''Unsupported input type: '' @ Sprintf_q lib (InputFormat m)
                             @ '': '' @ fmt_v errList))
      else Return (Errorf (''Unsupported input type: '' @ Sprintf_q lib (InputFormat m))))"

definition case_hcl ::
  "'v library \<Rightarrow> ParseMode \<Rightarrow> string \<Rightarrow> bool \<Rightarrow> error list
     \<Rightarrow> 'v switch_outcome \<times> parser_call list" where
  "case_hcl lib m buf tryAllFormats errList =
     (case ParseHCL lib buf of
        Inr raw \<Rightarrow> (Break raw errList, [Call_ParseHCL])
      | Inl err \<Rightarrow>
          if \<not> tryAllFormats then (Return (errWrapped_hcl lib m err), [Call_ParseHCL])
          else (case_default lib m (errList @ [errWrapped_hcl lib m err]), [Call_ParseHCL]))"

definition case_json5 ::
  "'v library \<Rightarrow> ParseMode \<Rightarrow> string \<Rightarrow> string \<Rightarrow> bool \<Rightarrow> error list
     \<Rightarrow> 'v switch_outcome \<times> parser_call list" where
  "case_json5 lib m f buf tryAllFormats errList =
     (case ParseJSON5 lib buf of
        Inr raw \<Rightarrow> (Break raw errList, [Call_ParseJSON5])
      | Inl err \<Rightarrow>
          if \<not> tryAllFormats then (Return (errWrapped_json5 lib m f err), [Call_ParseJSON5])
          else (case case_hcl lib m buf tryAllFormats (errList @ [errWrapped_json5 lib m f err]) of
                  (outcome, calls) \<Rightarrow> (outcome, Call_ParseJSON5 # calls)))"

definition case_json ::
  "'v library \<Rightarrow> ParseMode \<Rightarrow> string \<Rightarrow> string \<Rightarrow> bool \<Rightarrow> error list
     \<Rightarrow> 'v switch_outcome \<times> parser_call list" where
  "case_json lib m f buf tryAllFormats errList =
     (case ParseJSON lib buf of
        Inr raw \<Rightarrow> (Break raw errList, [Call_ParseJSON])
      | Inl err \<Rightarrow>
          if \<not> tryAllFormats then (Return (errWrapped_json lib m f err), [Call_ParseJSON])
          else (case case_json5 lib m f buf tryAllFormats (errList @ [errWrapped_json lib m f err]) of
                  (outcome, calls) \<Rightarrow> (outcome, Call_ParseJSON # calls)))"

definition run_switch ::
  "'v library \<Rightarrow> ParseMode \<Rightarrow> string \<Rightarrow> string \<Rightarrow> 'v switch_outcome \<times> parser_call list" where
  "run_switch lib m f buf =
     (if InputFormat m = ''*'' then case_json lib m f buf True []
      else if InputFormat m = ''json'' then case_json lib m f buf False []
      else if InputFormat m = ''json5'' then case_json5 lib m f buf False []
      else if InputFormat m = ''hcl'' then case_hcl lib m buf False []
      else (case_default lib m [], []))"

text \<open>
  The first part of \<open>run\<close>: the input file is opened (standard input is copied into a
  temp file first) and copied into \<open>buf\<close>.  The result is the content of \<open>f\<close>, which is
  also the content of \<open>buf\<close>.  An error of \<open>io.Copy\<close> from standard input into the temp
  file is dropped by the code: \<open>stdin\<close> is what reached the temp file.
\<close>

definition run_input :: "world \<Rightarrow> ParseMode \<Rightarrow> error + string" where
  "run_input w m =
     (case (if InFilename m = ''-'' then
              (case TempFile_error w of
                 Some err \<Rightarrow> Inl (Wrap (Lib err) ''unable to create temp file for stdin'')
               | None \<Rightarrow>
                   (case Flush_error w of
                      Some err \<Rightarrow> Inl (Wrap (Lib err) ''unable to flush temp file'')
                    | None \<Rightarrow> Inr (stdin w)))
            else
              (case Open_file w (InFilename m) of
                 Inl err \<Rightarrow> Inl (Wrap (Lib err) ''unable to read input'')
               | Inr content \<Rightarrow> Inr content)) of
        Inl err \<Rightarrow> Inl err
      | Inr f \<Rightarrow>
          (case Copy_error w of
             Some err \<Rightarrow> Inl (Wrap (Lib err) ''unable to read input'')
           | None \<Rightarrow> Inr f))"

text \<open>
  How \<open>run\<close> ends: it returns nil after writing bytes to a destination, it returns an
  error, or a deferred function panics.
\<close>

datatype run_result = Success string string | Failure error | Panic liberror

text \<open>The encoder of the \<open>"json"\<close> output: \<open>json.NewEncoder\<close>, then \<open>SetIndent\<close> under the guard.\<close>

definition run_encoder :: "ParseMode \<Rightarrow> string \<times> string" where
  "run_encoder m =
     (if PrettyPrint m \<and> OutFilename m = ''-'' then ([], ''    '') else ([], []))"

text \<open>
  \<open>Encoder.Encode\<close> indents its output when one of the two strings set by \<open>SetIndent\<close>
  is not empty.
\<close>

definition indented :: "string \<times> string \<Rightarrow> bool" where
  "indented enc = (fst enc \<noteq> [] \<or> snd enc \<noteq> [])"

text \<open>
  The last part of \<open>run\<close>, after the switch was left by \<open>break\<close>.  For an output file the
  deferred \<open>fo.Sync()\<close> runs before the deferred \<open>fo.Close()\<close>, each panics on an error,
  and the panic of \<open>Close\<close> replaces the one of \<open>Sync\<close>.  The error of the deferred
  \<open>w.Flush()\<close> is dropped by the code.
\<close>

definition run_output :: "'v library \<Rightarrow> world \<Rightarrow> ParseMode \<Rightarrow> 'v \<Rightarrow> run_result" where
  "run_output lib w m raw =
     (let body =
            (if OutputFormat m = ''json'' then
               (case json_Encode lib (run_encoder m) raw of
                  Inl err \<Rightarrow> Failure (Wrap (Lib err) ''unable to encode'')
                | Inr bytes \<Rightarrow> Success (OutFilename m) bytes)
             else Failure (Errorf (''Unsupported output type: '' @ Sprintf_q lib (OutputFormat m))))
      in if OutFilename m = ''-'' then body
         else
           (case Create_error w (OutFilename m) of
              Some err \<Rightarrow> Failure (Wrap (Lib err) ''unable to open output file'')
            | None \<Rightarrow>
                (case Close_error w of
                   Some err \<Rightarrow> Panic err
                 | None \<Rightarrow> (case Sync_error w of Some err \<Rightarrow> Panic err | None \<Rightarrow> body))))"

definition run :: "'v library \<Rightarrow> world \<Rightarrow> ParseMode \<Rightarrow> run_result \<times> parser_call list" where
  "run lib w m =
     (case run_input w m of
        Inl err \<Rightarrow> (Failure err, [])
      | Inr f \<Rightarrow>
          (case run_switch lib m f f of
             (Return err, calls) \<Rightarrow> (Failure err, calls)
           | (Break raw errList, calls) \<Rightarrow> (run_output lib w m raw, calls)))"

section \<open>Notions used to state the properties\<close>

text \<open>
  The lines of a text: the pieces between its newline bytes, as \<open>strings.Split(s, "\n")\<close>
  gives them.  A text with \<open>k\<close> newlines has \<open>k + 1\<close> lines; the last one is empty when
  the text ends with a newline.
\<close>

fun split_lines :: "string \<Rightarrow> string list" where
  "split_lines [] = [[]]"
| "split_lines (c # cs) =
     (if c = newline then [] # split_lines cs
      else (c # hd (split_lines cs)) # tl (split_lines cs))"

text \<open>
  The snippet as the specification words it, for the line and column that
  \<open>highlightPosition\<close> reports: the line before the error line when there is one, the
  error line, both behind the prefix \<open>"%5d: "\<close>, and a caret line of as many spaces as
  the prefix is wide plus \<open>column\<close> spaces.
\<close>

definition spec_snippet :: "string \<Rightarrow> int \<Rightarrow> string" where
  "spec_snippet f pos =
     (case highlightPosition f pos of
        (line, col, highlight) \<Rightarrow>
          (if line \<noteq> 1
           then fmt_5d (line - 1) @ '': '' @ split_lines f ! (line - 2) @ [newline] else [])
          @ fmt_5d line @ '': '' @ split_lines f ! (line - 1) @ [newline]
          @ replicate (length (fmt_5d line @ '': '') + col) CHR '' '' @ ''^'' @ [newline])"

text \<open>
  The form that the specification gives to the message of a failed attempt: the
  text begins with \<open>unable to parse <input name> as <format>:\<close>, with both names as \<open>%q\<close>
  prints them.
\<close>

definition names_format :: "'v library \<Rightarrow> ParseMode \<Rightarrow> string \<Rightarrow> string \<Rightarrow> bool" where
  "names_format lib m format text =
     (take (length (''unable to parse '' @ Sprintf_q lib (InFilename m) @ '' as ''
                      @ Sprintf_q lib format @ '': '')) text
      = ''unable to parse '' @ Sprintf_q lib (InFilename m) @ '' as ''
          @ Sprintf_q lib format @ '': '')"

text \<open>
  The state of the loop of \<open>highlightPosition\<close> after it has read the bytes \<open>done\<close>, in
  terms of the lines of \<open>done\<close>.
\<close>

definition state_after :: "string \<Rightarrow> nat \<times> nat \<times> string \<times> string" where
  "state_after done =
     (length (split_lines done),
      (if newline \<in> set done then 1 + length (last (split_lines done)) else length done),
      (if newline \<in> set done then split_lines done ! (length (split_lines done) - 2) else []),
      last (split_lines done))"

text \<open>
  The errors that the end of a run hands to its caller: the error that \<open>run\<close> returns,
  and none when it returns nil or panics.
\<close>

definition returned_errors :: "run_result \<Rightarrow> error list" where
  "returned_errors r =
     (case r of Success dest bytes \<Rightarrow> [] | Failure err \<Rightarrow> [err] | Panic e \<Rightarrow> [])"

section \<open>Sample documents, libraries and files\<close>

text \<open>
  The values the decoders produce are trees: nil, booleans, numbers, strings, sequences
  and maps with string keys.  Every number a decoder produces (a finite \<open>float64\<close>, an
  \<open>int\<close>) is a rational number.
\<close>

datatype Value =
    VNil
  | VBool bool
  | VNumber rat
  | VString string
  | VArray "Value list"
  | VObject "(string \<times> Value) list"

text \<open>\<open>%q\<close> of a string of printable ASCII characters other than the double quote and the backslash.\<close>

definition quote_plain :: "string \<Rightarrow> string" where
  "quote_plain s = [CHR 0x22] @ s @ [CHR 0x22]"

text \<open>
  Five documents and what the decoders do on them: \<open>{}\<close> is strict JSON, \<open>{a:1}\<close> is JSON5
  but not JSON (the key has no quotes), \<open>a = 1\<close> is HCL and neither JSON nor JSON5, and
  \<open>}\<close> is none of the three; on the empty document the decoders of JSON and JSON5 report
  the end of the input, an error that is no syntax error and has no offset.  The texts of the messages stand for the texts of the libraries.  The examples
  call a decoder only on the documents listed for it; on any other document the
  sample decoder reports an error that has no offset.  The sample encoder writes the
  two values that these documents decode to.
\<close>

definition sample_json_Decode :: "string \<Rightarrow> liberror + Value" where
  "sample_json_Decode s =
     (if s = [] then Inl (OtherError ''EOF'')
      else if s = ''{}'' then Inr (VObject [])
      else if s = ''{a:1}'' then Inl (JsonSyntaxError ''invalid character a looking for beginning of object key string'' 2)
      else if s = ''a = 1'' then Inl (JsonSyntaxError ''invalid character a looking for beginning of value'' 1)
      else if s = ''}'' then Inl (JsonSyntaxError ''invalid character } looking for beginning of value'' 1)
      else Inl (OtherError ''not a sample document''))"

definition sample_json5_Decode :: "string \<Rightarrow> liberror + Value" where
  "sample_json5_Decode s =
     (if s = [] then Inl (OtherError ''EOF'')
      else if s = ''{a:1}'' then Inr (VObject [(''a'', VNumber 1)])
      else if s = ''a = 1'' then Inl (Json5SyntaxError ''invalid character a looking for beginning of value'' 1)
      else if s = ''}'' then Inl (Json5SyntaxError ''invalid character } looking for beginning of value'' 1)
      else Inl (OtherError ''not a sample document''))"

definition sample_hcl_Decode :: "string \<Rightarrow> liberror + Value" where
  "sample_hcl_Decode s =
     (if s = ''a = 1'' then Inr (VObject [(''a'', VNumber 1)])
      else if s = ''}'' then Inl (OtherError ''At 1:1: illegal char'')
      else Inl (OtherError ''not a sample document''))"

definition sample_json_Encode :: "string \<times> string \<Rightarrow> Value \<Rightarrow> liberror + string" where
  "sample_json_Encode enc v =
     (if v = VObject [] then Inr (''{}'' @ [newline])
      else if v = VObject [(''a'', VNumber 1)] then
        (if indented enc
         then Inr (''{'' @ [newline] @ fst enc @ snd enc @ quote_plain ''a'' @ '': 1'' @ [newline]
                     @ fst enc @ ''}'' @ [newline])
         else Inr (''{'' @ quote_plain ''a'' @ '':1}'' @ [newline]))
      else Inl (OtherError ''not a sample value''))"

definition sample_library :: "Value library" where
  "sample_library =
     \<lparr>json_Decode = sample_json_Decode, json5_Decode = sample_json5_Decode,
      hcl_Decode = sample_hcl_Decode, Sprintf_q = quote_plain,
      json_Encode = sample_json_Encode\<rparr>"

text \<open>A text of two lines, \<open>x\<close> and \<open>abc\<close>, for the locator.\<close>

definition sample_text :: string where
  "sample_text = ''x'' @ [newline] @ ''abc''"

text \<open>
  A run that gets the document on standard input: the temp file works, no named file
  can be opened, and an output file can be created, synced and closed.
\<close>

definition sample_world :: "string \<Rightarrow> world" where
  "sample_world doc =
     \<lparr>stdin = doc, TempFile_error = None, Flush_error = None,
      Open_file = (\<lambda>name. Inl (OtherError ''no such file or directory'')),
      Copy_error = None, Create_error = (\<lambda>name. None),
      Sync_error = None, Close_error = None\<rparr>"

definition sample_mode :: "string \<Rightarrow> string \<Rightarrow> bool \<Rightarrow> ParseMode" where
  "sample_mode format out pretty =
     \<lparr>InFilename = ''-'', OutFilename = out, PrettyPrint = pretty,
      InputFormat = format, OutputFormat = ''json''\<rparr>"

section \<open>Evaluation of the samples\<close>

text \<open>
  The equation of \<open>decimal\<close> rewrites its own right-hand side: the simplifier gets the
  two cases as conditional rules instead.
\<close>

declare decimal.simps [simp del]

lemma decimal_digit: "n < 10 \<Longrightarrow> decimal n = [''0123456789'' ! n]"
  by (simp add: decimal.simps [of n])

lemma decimal_more:
  "\<not> n < 10 \<Longrightarrow> decimal n = decimal (n div 10) @ [''0123456789'' ! (n mod 10)]"
  by (simp add: decimal.simps [of n])

lemma replicate_numeral: "replicate (numeral n) c = [c] @ replicate (pred_numeral n) c"
  unfolding numeral_eq_Suc by simp

lemma sample_input: "run_input (sample_world doc) (sample_mode format out pretty) = Inr doc"
  by (simp add: run_input_def sample_world_def sample_mode_def)

lemma sample_format: "InputFormat (sample_mode format out pretty) = format"
  by (simp add: sample_mode_def)

lemma sample_quote: "Sprintf_q sample_library = quote_plain"
  by (simp add: sample_library_def)

lemma sample_parse_none:
  "ParseJSON sample_library ''}'' =
     Inl (Wrap (Lib (JsonSyntaxError ''invalid character } looking for beginning of value'' 1))
            ''unable to decode JSON'')"
  "ParseJSON5 sample_library ''}'' =
     Inl (Wrap (Lib (Json5SyntaxError ''invalid character } looking for beginning of value'' 1))
            ''unable to decode JSON5'')"
  "ParseHCL sample_library ''}'' =
     Inl (Wrap (Lib (OtherError ''At 1:1: illegal char'')) ''unable to decode HCL'')"
  by (simp_all add: ParseJSON_def ParseJSON5_def ParseHCL_def sample_library_def
      sample_json_Decode_def sample_json5_Decode_def sample_hcl_Decode_def)

lemma sample_parse_empty:
  "ParseJSON sample_library [] = Inl (Wrap (Lib (OtherError ''EOF'')) ''unable to decode JSON'')"
  "ParseJSON5 sample_library [] = Inl (Wrap (Lib (OtherError ''EOF'')) ''unable to decode JSON5'')"
  by (simp_all add: ParseJSON_def ParseJSON5_def sample_library_def
      sample_json_Decode_def sample_json5_Decode_def)

lemma sample_decode_none:
  "json_Decode sample_library ''}'' =
     Inl (JsonSyntaxError ''invalid character } looking for beginning of value'' 1)"
  "json5_Decode sample_library ''}'' =
     Inl (Json5SyntaxError ''invalid character } looking for beginning of value'' 1)"
  "hcl_Decode sample_library ''}'' = Inl (OtherError ''At 1:1: illegal char'')"
  "json_Decode sample_library [] = Inl (OtherError ''EOF'')"
  "json5_Decode sample_library [] = Inl (OtherError ''EOF'')"
  by (simp_all add: sample_library_def sample_json_Decode_def sample_json5_Decode_def
      sample_hcl_Decode_def)

lemma sample_locate_brace:
  "highlightPosition ''}'' 1 = (1, 1, ''    1: }'' @ [newline] @ ''      ^'' @ [newline])"
  by (simp add: highlightPosition_def newline_def fmt_5d_def replicate_numeral decimal_digit)

lemma sample_locate_key:
  "highlightPosition ''{a:1}'' 2 = (1, 2, ''    1: {a'' @ [newline] @ ''       ^'' @ [newline])"
  by (simp add: highlightPosition_def newline_def fmt_5d_def replicate_numeral decimal_digit)

lemma sample_mode_fields:
  "InFilename (sample_mode format out pretty) = ''-''"
  "OutFilename (sample_mode format out pretty) = out"
  "PrettyPrint (sample_mode format out pretty) = pretty"
  "OutputFormat (sample_mode format out pretty) = ''json''"
  by (simp_all add: sample_mode_def)

lemma sample_decode_key:
  "json_Decode sample_library ''{a:1}'' =
     Inl (JsonSyntaxError ''invalid character a looking for beginning of object key string'' 2)"
  "json5_Decode sample_library ''{a:1}'' = Inr (VObject [(''a'', VNumber 1)])"
  by (simp_all add: sample_library_def sample_json_Decode_def sample_json5_Decode_def)

section \<open>The format resolver\<close>

text \<open>
  What a failed call of a parser returns, and what the \<open>errWrapped\<close> of a case keeps of
  it: the cause stays the one of the parser's error, and the text is a text that begins
  with \<open>unable to parse\<close>, then a colon and the text of the parser's error.
\<close>

lemma ParseJSON_Inl:
  "json_Decode lib r = Inl d \<Longrightarrow> ParseJSON lib r = Inl (withMessage (Lib d) ''unable to decode JSON'')"
  by (simp add: ParseJSON_def Wrap_def)

lemma ParseJSON5_Inl:
  "json5_Decode lib r = Inl d \<Longrightarrow> ParseJSON5 lib r = Inl (withMessage (Lib d) ''unable to decode JSON5'')"
  by (simp add: ParseJSON5_def Wrap_def)

lemma ParseHCL_Inl:
  "hcl_Decode lib r = Inl d \<Longrightarrow> ParseHCL lib r = Inl (withMessage (Lib d) ''unable to decode HCL'')"
  by (simp add: ParseHCL_def Wrap_def)


lemma syntax_error_message_begins:
  "\<exists>p. syntax_error_message lib m f msg off = ''unable to parse '' @ p"
  by (cases "highlightPosition f off") (simp add: syntax_error_message_def)

lemma errWrapped_json_carries:
  "Cause (errWrapped_json lib m f err) = Cause err
   \<and> (\<exists>p. Error (errWrapped_json lib m f err) = ''unable to parse '' @ p @ '': '' @ Error err)"
proof -
  have "\<exists>p. errWrapped_json lib m f err = withMessage err (''unable to parse '' @ p)"
  proof (cases "\<exists>msg off. Cause err = Lib (JsonSyntaxError msg off)")
    case True
    then obtain msg off where c: "Cause err = Lib (JsonSyntaxError msg off)" by blast
    from syntax_error_message_begins [of lib m f msg off]
    show ?thesis by (auto simp add: errWrapped_json_def Wrap_def c)
  next
    case False
    then have "errWrapped_json lib m f err =
        withMessage err (''unable to parse '' @ ''config file as '' @ Sprintf_q lib (InputFormat m))"
      by (auto simp add: errWrapped_json_def Wrap_def split: error.splits liberror.splits)
    then show ?thesis by blast
  qed
  then obtain p where "errWrapped_json lib m f err = withMessage err (''unable to parse '' @ p)" ..
  then show ?thesis by auto
qed

lemma errWrapped_json5_carries:
  "Cause (errWrapped_json5 lib m f err) = Cause err
   \<and> (\<exists>p. Error (errWrapped_json5 lib m f err) = ''unable to parse '' @ p @ '': '' @ Error err)"
proof -
  have "\<exists>p. errWrapped_json5 lib m f err = withMessage err (''unable to parse '' @ p)"
  proof (cases "\<exists>msg off. Cause err = Lib (Json5SyntaxError msg off)")
    case True
    then obtain msg off where c: "Cause err = Lib (Json5SyntaxError msg off)" by blast
    from syntax_error_message_begins [of lib m f msg off]
    show ?thesis by (auto simp add: errWrapped_json5_def Wrap_def c)
  next
    case False
    then have "errWrapped_json5 lib m f err =
        withMessage err (''unable to parse '' @ ''config file as '' @ Sprintf_q lib (InputFormat m))"
      by (auto simp add: errWrapped_json5_def Wrap_def split: error.splits liberror.splits)
    then show ?thesis by blast
  qed
  then obtain p where "errWrapped_json5 lib m f err = withMessage err (''unable to parse '' @ p)" ..
  then show ?thesis by auto
qed

lemma errWrapped_hcl_carries:
  "Cause (errWrapped_hcl lib m err) = Cause err
   \<and> (\<exists>p. Error (errWrapped_hcl lib m err) = ''unable to parse '' @ p @ '': '' @ Error err)"
proof -
  have "errWrapped_hcl lib m err =
      withMessage err (''unable to parse '' @ ''config file as '' @ Sprintf_q lib (InputFormat m))"
    by (simp add: errWrapped_hcl_def Wrap_def)
  then show ?thesis by auto
qed

lemma fmt_v_three:
  "fmt_v [a, b, c] = ''['' @ Error a @ '' '' @ Error b @ '' '' @ Error c @ '']''"
  by (simp add: fmt_v_def)

text \<open>
  C1.  Let a run in detect mode (requested format \<open>"*"\<close>) read an input on which the
  decoders of JSON, JSON5 and HCL all fail, with the errors \<open>d1\<close>, \<open>d2\<close> and \<open>d3\<close>.  Then
  the three parsers are called in that order, the switch reaches its default case with
  an \<open>errList\<close> of exactly three entries, and the run has no success value: it returns
  the error whose text is \<open>Unsupported input type: "*":\<close> and, in brackets and separated
  by one space, the texts of the three entries.  The first entry has the cause \<open>d1\<close> and
  a text that ends with \<open>unable to decode JSON:\<close> and the message of \<open>d1\<close>; the second
  one has the cause \<open>d2\<close> and ends with \<open>unable to decode JSON5:\<close> and the message of
  \<open>d2\<close>; the third one has the cause \<open>d3\<close> and ends with \<open>unable to decode HCL:\<close> and
  the message of \<open>d3\<close>.
\<close>

theorem detect_all_fail:
  assumes "InputFormat m = ''*''"
    and "run_input w m = Inr f"
    and "json_Decode lib f = Inl d1"
    and "json5_Decode lib f = Inl d2"
    and "hcl_Decode lib f = Inl d3"
  shows "let w1 = errWrapped_json lib m f (withMessage (Lib d1) ''unable to decode JSON'');
             w2 = errWrapped_json5 lib m f (withMessage (Lib d2) ''unable to decode JSON5'');
             w3 = errWrapped_hcl lib m (withMessage (Lib d3) ''unable to decode HCL'')
         in run_switch lib m f f =
              (case_default lib m [w1, w2, w3], [Call_ParseJSON, Call_ParseJSON5, Call_ParseHCL])
          \<and> run lib w m =
              (Failure (Errorf (''Unsupported input type: '' @ Sprintf_q lib ''*'' @ '': ''
                 @ ''['' @ Error w1 @ '' '' @ Error w2 @ '' '' @ Error w3 @ '']'')),
               [Call_ParseJSON, Call_ParseJSON5, Call_ParseHCL])
          \<and> Cause w1 = Lib d1
          \<and> (\<exists>p. Error w1 = ''unable to parse '' @ p @ '': unable to decode JSON: ''
                                 @ liberror_Error d1)
          \<and> Cause w2 = Lib d2
          \<and> (\<exists>p. Error w2 = ''unable to parse '' @ p @ '': unable to decode JSON5: ''
                                 @ liberror_Error d2)
          \<and> Cause w3 = Lib d3
          \<and> (\<exists>p. Error w3 = ''unable to parse '' @ p @ '': unable to decode HCL: ''
                                 @ liberror_Error d3)"
proof -
  let ?e1 = "withMessage (Lib d1) ''unable to decode JSON''"
  let ?e2 = "withMessage (Lib d2) ''unable to decode JSON5''"
  let ?e3 = "withMessage (Lib d3) ''unable to decode HCL''"
  let ?w1 = "errWrapped_json lib m f ?e1"
  let ?w2 = "errWrapped_json5 lib m f ?e2"
  let ?w3 = "errWrapped_hcl lib m ?e3"
  let ?calls = "[Call_ParseJSON, Call_ParseJSON5, Call_ParseHCL]"
  have sw: "run_switch lib m f f = (case_default lib m [?w1, ?w2, ?w3], ?calls)"
    using assms(1) ParseJSON_Inl [OF assms(3)] ParseJSON5_Inl [OF assms(4)]
      ParseHCL_Inl [OF assms(5)]
    by (simp add: run_switch_def case_json_def case_json5_def case_hcl_def)
  have rn: "run lib w m =
      (Failure (Errorf (''Unsupported input type: '' @ Sprintf_q lib ''*'' @ '': ''
         @ ''['' @ Error ?w1 @ '' '' @ Error ?w2 @ '' '' @ Error ?w3 @ '']'')), ?calls)"
    using assms(1) by (simp add: run_def assms(2) sw case_default_def fmt_v_three)
  have c1: "Cause ?w1 = Lib d1" using errWrapped_json_carries [of lib m f ?e1] by simp
  have c2: "Cause ?w2 = Lib d2" using errWrapped_json5_carries [of lib m f ?e2] by simp
  have c3: "Cause ?w3 = Lib d3" using errWrapped_hcl_carries [of lib m ?e3] by simp
  have t1: "\<exists>p. Error ?w1 = ''unable to parse '' @ p @ '': unable to decode JSON: ''
                                @ liberror_Error d1"
    using errWrapped_json_carries [of lib m f ?e1] by simp
  have t2: "\<exists>p. Error ?w2 = ''unable to parse '' @ p @ '': unable to decode JSON5: ''
                                @ liberror_Error d2"
    using errWrapped_json5_carries [of lib m f ?e2] by simp
  have t3: "\<exists>p. Error ?w3 = ''unable to parse '' @ p @ '': unable to decode HCL: ''
                                @ liberror_Error d3"
    using errWrapped_hcl_carries [of lib m ?e3] by simp
  show ?thesis
    unfolding Let_def using sw rn c1 c2 c3 t1 t2 t3 by blast
qed

lemma sample_none_texts:
  "Error (errWrapped_json sample_library (sample_mode ''*'' ''-'' False) ''}''
       (withMessage (Lib (JsonSyntaxError
          ''invalid character } looking for beginning of value'' 1))
          ''unable to decode JSON'')) =
     ''unable to parse '' @ quote_plain ''-'' @ '' as '' @ quote_plain ''*''
     @ '': invalid character } looking for beginning of value'' @ [newline]
     @ ''Syntax error at line 1, column 1 (offset 1):'' @ [newline]
     @ ''    1: }'' @ [newline] @ ''      ^'' @ [newline]
     @ '': unable to decode JSON: invalid character } looking for beginning of value''"
  "Error (errWrapped_json5 sample_library (sample_mode ''*'' ''-'' False) ''}''
       (withMessage (Lib (Json5SyntaxError
          ''invalid character } looking for beginning of value'' 1))
          ''unable to decode JSON5'')) =
     ''unable to parse '' @ quote_plain ''-'' @ '' as '' @ quote_plain ''*''
     @ '': invalid character } looking for beginning of value'' @ [newline]
     @ ''Syntax error at line 1, column 1 (offset 1):'' @ [newline]
     @ ''    1: }'' @ [newline] @ ''      ^'' @ [newline]
     @ '': unable to decode JSON5: invalid character } looking for beginning of value''"
  "Error (errWrapped_hcl sample_library (sample_mode ''*'' ''-'' False)
       (withMessage (Lib (OtherError ''At 1:1: illegal char'')) ''unable to decode HCL'')) =
     ''unable to parse config file as '' @ quote_plain ''*''
     @ '': unable to decode HCL: At 1:1: illegal char''"
  by (simp_all add: errWrapped_json_def errWrapped_json5_def errWrapped_hcl_def Wrap_def
      syntax_error_message_def sample_locate_brace sample_quote sample_format
      sample_mode_fields fmt_d_def decimal_digit)

theorem detect_all_fail_witness:
  "run sample_library (sample_world ''}'') (sample_mode ''*'' ''-'' False) =
     (Failure (Errorf (''Unsupported input type: '' @ quote_plain ''*'' @ '': [''
        @ ''unable to parse '' @ quote_plain ''-'' @ '' as '' @ quote_plain ''*''
        @ '': invalid character } looking for beginning of value'' @ [newline]
        @ ''Syntax error at line 1, column 1 (offset 1):'' @ [newline]
        @ ''    1: }'' @ [newline] @ ''      ^'' @ [newline]
        @ '': unable to decode JSON: invalid character } looking for beginning of value''
        @ '' ''
        @ ''unable to parse '' @ quote_plain ''-'' @ '' as '' @ quote_plain ''*''
        @ '': invalid character } looking for beginning of value'' @ [newline]
        @ ''Syntax error at line 1, column 1 (offset 1):'' @ [newline]
        @ ''    1: }'' @ [newline] @ ''      ^'' @ [newline]
        @ '': unable to decode JSON5: invalid character } looking for beginning of value''
        @ '' ''
        @ ''unable to parse config file as '' @ quote_plain ''*''
        @ '': unable to decode HCL: At 1:1: illegal char''
        @ '']'')),
      [Call_ParseJSON, Call_ParseJSON5, Call_ParseHCL])"
  using detect_all_fail [OF sample_format sample_input sample_decode_none(1)
      sample_decode_none(2) sample_decode_none(3), of "''-''" False]
  by (simp add: Let_def sample_none_texts sample_quote)

lemma sample_parse_json: "ParseJSON sample_library ''{}'' = Inr (VObject [])"
  by (simp add: ParseJSON_def sample_library_def sample_json_Decode_def)

lemma sample_parse_json5:
  "ParseJSON sample_library ''{a:1}'' =
     Inl (Wrap (Lib (JsonSyntaxError
        ''invalid character a looking for beginning of object key string'' 2))
        ''unable to decode JSON'')"
  "ParseJSON5 sample_library ''{a:1}'' = Inr (VObject [(''a'', VNumber 1)])"
  by (simp_all add: ParseJSON_def ParseJSON5_def sample_library_def
      sample_json_Decode_def sample_json5_Decode_def)

lemma run_input_format: "run_input w (m\<lparr>InputFormat := x\<rparr>) = run_input w m"
  by (simp add: run_input_def)

lemma run_output_format:
  "run_output lib w (m\<lparr>InputFormat := x\<rparr>) raw = run_output lib w m raw"
  by (simp add: run_output_def run_encoder_def Let_def cong: sum.case_cong option.case_cong)

text \<open>
  C3.  Let \<open>ParseJSON\<close> succeed on the input with the value \<open>v\<close>.  Then the run in detect
  mode and the run that requests \<open>"json"\<close> leave the switch with the same value \<open>v\<close> and
  an empty \<open>errList\<close>, they end in the same way, and each calls \<open>ParseJSON\<close> once and
  neither \<open>ParseJSON5\<close> nor \<open>ParseHCL\<close>.
\<close>

theorem detect_strict_json:
  assumes "run_input w m = Inr f"
    and "ParseJSON lib f = Inr v"
  shows "run lib w (m\<lparr>InputFormat := ''*''\<rparr>) = (run_output lib w m v, [Call_ParseJSON])
       \<and> run lib w (m\<lparr>InputFormat := ''json''\<rparr>) = (run_output lib w m v, [Call_ParseJSON])
       \<and> run_switch lib (m\<lparr>InputFormat := ''*''\<rparr>) f f = (Break v [], [Call_ParseJSON])
       \<and> run_switch lib (m\<lparr>InputFormat := ''json''\<rparr>) f f = (Break v [], [Call_ParseJSON])"
  using assms
  by (simp add: run_def run_switch_def case_json_def run_input_format run_output_format)

theorem detect_strict_json_witness:
  "run sample_library (sample_world ''{}'') (sample_mode ''*'' ''-'' False) =
     (Success ''-'' (''{}'' @ [newline]), [Call_ParseJSON])
   \<and> run sample_library (sample_world ''{}'') (sample_mode ''json'' ''-'' False) =
     (Success ''-'' (''{}'' @ [newline]), [Call_ParseJSON])"
  using detect_strict_json [OF sample_input sample_parse_json, of "''*''" "''-''" False]
  by (simp add: sample_mode_def run_output_def sample_library_def sample_json_Encode_def)







text \<open>
  C5.  Let the requested format be \<open>"json"\<close>, \<open>"json5"\<close> or \<open>"hcl"\<close>.  Then the run calls the
  parser of that format once and no other parser.  When the decoder of that format
  fails with the error \<open>d\<close>, the run returns the wrapped error of that one failure: its
  cause is \<open>d\<close> and its text ends with \<open>unable to decode\<close>, the name of that format, a
  colon and the message of \<open>d\<close>.  There is no success value and no other format is
  tried.
\<close>

theorem explicit_format_only:
  assumes "run_input w m = Inr f"
  shows "(InputFormat m = ''json'' \<longrightarrow>
            snd (run lib w m) = [Call_ParseJSON]
          \<and> (\<forall>d. json_Decode lib f = Inl d \<longrightarrow>
               (let e = errWrapped_json lib m f (withMessage (Lib d) ''unable to decode JSON'')
                in fst (run lib w m) = Failure e \<and> Cause e = Lib d
                 \<and> (\<exists>p. Error e = ''unable to parse '' @ p @ '': unable to decode JSON: ''
                                      @ liberror_Error d))))
       \<and> (InputFormat m = ''json5'' \<longrightarrow>
            snd (run lib w m) = [Call_ParseJSON5]
          \<and> (\<forall>d. json5_Decode lib f = Inl d \<longrightarrow>
               (let e = errWrapped_json5 lib m f (withMessage (Lib d) ''unable to decode JSON5'')
                in fst (run lib w m) = Failure e \<and> Cause e = Lib d
                 \<and> (\<exists>p. Error e = ''unable to parse '' @ p @ '': unable to decode JSON5: ''
                                      @ liberror_Error d))))
       \<and> (InputFormat m = ''hcl'' \<longrightarrow>
            snd (run lib w m) = [Call_ParseHCL]
          \<and> (\<forall>d. hcl_Decode lib f = Inl d \<longrightarrow>
               (let e = errWrapped_hcl lib m (withMessage (Lib d) ''unable to decode HCL'')
                in fst (run lib w m) = Failure e \<and> Cause e = Lib d
                 \<and> (\<exists>p. Error e = ''unable to parse '' @ p @ '': unable to decode HCL: ''
                                      @ liberror_Error d))))"
proof (intro conjI impI allI)
  assume "InputFormat m = ''json''"
  then show "snd (run lib w m) = [Call_ParseJSON]"
    using assms by (auto simp add: run_def run_switch_def case_json_def split: sum.splits)
next
  fix d
  assume fm: "InputFormat m = ''json''" and dec: "json_Decode lib f = Inl d"
  let ?e = "errWrapped_json lib m f (withMessage (Lib d) ''unable to decode JSON'')"
  have "fst (run lib w m) = Failure ?e"
    using fm assms ParseJSON_Inl [OF dec] by (simp add: run_def run_switch_def case_json_def)
  then show "let e = ?e in fst (run lib w m) = Failure e \<and> Cause e = Lib d
       \<and> (\<exists>p. Error e = ''unable to parse '' @ p @ '': unable to decode JSON: ''
                            @ liberror_Error d)"
    unfolding Let_def
    using errWrapped_json_carries [of lib m f "withMessage (Lib d) ''unable to decode JSON''"]
    by simp
next
  assume "InputFormat m = ''json5''"
  then show "snd (run lib w m) = [Call_ParseJSON5]"
    using assms by (auto simp add: run_def run_switch_def case_json5_def split: sum.splits)
next
  fix d
  assume fm: "InputFormat m = ''json5''" and dec: "json5_Decode lib f = Inl d"
  let ?e = "errWrapped_json5 lib m f (withMessage (Lib d) ''unable to decode JSON5'')"
  have "fst (run lib w m) = Failure ?e"
    using fm assms ParseJSON5_Inl [OF dec] by (simp add: run_def run_switch_def case_json5_def)
  then show "let e = ?e in fst (run lib w m) = Failure e \<and> Cause e = Lib d
       \<and> (\<exists>p. Error e = ''unable to parse '' @ p @ '': unable to decode JSON5: ''
                            @ liberror_Error d)"
    unfolding Let_def
    using errWrapped_json5_carries [of lib m f "withMessage (Lib d) ''unable to decode JSON5''"]
    by simp
next
  assume "InputFormat m = ''hcl''"
  then show "snd (run lib w m) = [Call_ParseHCL]"
    using assms by (auto simp add: run_def run_switch_def case_hcl_def split: sum.splits)
next
  fix d
  assume fm: "InputFormat m = ''hcl''" and dec: "hcl_Decode lib f = Inl d"
  let ?e = "errWrapped_hcl lib m (withMessage (Lib d) ''unable to decode HCL'')"
  have "fst (run lib w m) = Failure ?e"
    using fm assms ParseHCL_Inl [OF dec] by (simp add: run_def run_switch_def case_hcl_def)
  then show "let e = ?e in fst (run lib w m) = Failure e \<and> Cause e = Lib d
       \<and> (\<exists>p. Error e = ''unable to parse '' @ p @ '': unable to decode HCL: ''
                            @ liberror_Error d)"
    unfolding Let_def
    using errWrapped_hcl_carries [of lib m "withMessage (Lib d) ''unable to decode HCL''"]
    by simp
qed

lemma sample_explicit_texts:
  "Error (errWrapped_json sample_library (sample_mode ''json'' ''-'' False) ''{a:1}''
          (withMessage (Lib (JsonSyntaxError
             ''invalid character a looking for beginning of object key string'' 2))
             ''unable to decode JSON'')) =
     ''unable to parse '' @ quote_plain ''-'' @ '' as '' @ quote_plain ''json''
      @ '': invalid character a looking for beginning of object key string'' @ [newline]
      @ ''Syntax error at line 1, column 2 (offset 2):'' @ [newline]
      @ ''    1: {a'' @ [newline] @ ''       ^'' @ [newline]
      @ '': unable to decode JSON: invalid character a looking for beginning of object key string''"
  "Error (errWrapped_json5 sample_library (sample_mode ''json5'' ''-'' False) ''}''
       (withMessage (Lib (Json5SyntaxError
          ''invalid character } looking for beginning of value'' 1))
          ''unable to decode JSON5'')) =
     ''unable to parse '' @ quote_plain ''-'' @ '' as '' @ quote_plain ''json5''
     @ '': invalid character } looking for beginning of value'' @ [newline]
     @ ''Syntax error at line 1, column 1 (offset 1):'' @ [newline]
     @ ''    1: }'' @ [newline] @ ''      ^'' @ [newline]
     @ '': unable to decode JSON5: invalid character } looking for beginning of value''"
  "Error (errWrapped_hcl sample_library (sample_mode ''hcl'' ''-'' False)
       (withMessage (Lib (OtherError ''At 1:1: illegal char'')) ''unable to decode HCL'')) =
     ''unable to parse config file as '' @ quote_plain ''hcl''
     @ '': unable to decode HCL: At 1:1: illegal char''"
  by (simp_all add: errWrapped_json_def errWrapped_json5_def errWrapped_hcl_def Wrap_def
      syntax_error_message_def sample_locate_brace sample_locate_key sample_quote
      sample_format sample_mode_fields fmt_d_def decimal_digit)

theorem explicit_format_only_witness:
  "(case run sample_library (sample_world ''{a:1}'') (sample_mode ''json'' ''-'' False) of
      (r, calls) \<Rightarrow> (map Error (returned_errors r), calls)) =
     ([''unable to parse '' @ quote_plain ''-'' @ '' as '' @ quote_plain ''json''
        @ '': invalid character a looking for beginning of object key string'' @ [newline]
        @ ''Syntax error at line 1, column 2 (offset 2):'' @ [newline]
        @ ''    1: {a'' @ [newline] @ ''       ^'' @ [newline]
        @ '': unable to decode JSON: invalid character a looking for beginning of object key string''],
      [Call_ParseJSON])
   \<and> (case run sample_library (sample_world ''}'') (sample_mode ''json5'' ''-'' False) of
      (r, calls) \<Rightarrow> (map Error (returned_errors r), calls)) =
     ([''unable to parse '' @ quote_plain ''-'' @ '' as '' @ quote_plain ''json5''
        @ '': invalid character } looking for beginning of value'' @ [newline]
        @ ''Syntax error at line 1, column 1 (offset 1):'' @ [newline]
        @ ''    1: }'' @ [newline] @ ''      ^'' @ [newline]
        @ '': unable to decode JSON5: invalid character } looking for beginning of value''],
      [Call_ParseJSON5])
   \<and> (case run sample_library (sample_world ''}'') (sample_mode ''hcl'' ''-'' False) of
      (r, calls) \<Rightarrow> (map Error (returned_errors r), calls)) =
     ([''unable to parse config file as '' @ quote_plain ''hcl''
        @ '': unable to decode HCL: At 1:1: illegal char''],
      [Call_ParseHCL])"
  using explicit_format_only [OF sample_input [of "''{a:1}''" "''json''" "''-''" False],
      of sample_library]
    explicit_format_only [OF sample_input [of "''}''" "''json5''" "''-''" False],
      of sample_library]
    explicit_format_only [OF sample_input [of "''}''" "''hcl''" "''-''" False],
      of sample_library]
  by (simp add: sample_format sample_decode_key sample_decode_none Let_def
      sample_explicit_texts returned_errors_def case_prod_beta)

text \<open>
  C6.  Let the requested format be none of \<open>"*"\<close>, \<open>"json"\<close>, \<open>"json5"\<close> and \<open>"hcl"\<close>.  Then the
  run, once it has read its input, calls no parser and returns the error
  \<open>Unsupported input type\<close> made by \<open>fmt.Errorf\<close>, which is none of the wrapped errors that
  the cases of the three formats make.
\<close>

theorem unsupported_format:
  assumes "InputFormat m \<notin> {''*'', ''json'', ''json5'', ''hcl''}"
    and "run_input w m = Inr f"
  shows "run lib w m =
           (Failure (Errorf (''Unsupported input type: '' @ Sprintf_q lib (InputFormat m))), [])
       \<and> (\<forall>e. Errorf (''Unsupported input type: '' @ Sprintf_q lib (InputFormat m))
                 \<noteq> errWrapped_json lib m f e
              \<and> Errorf (''Unsupported input type: '' @ Sprintf_q lib (InputFormat m))
                 \<noteq> errWrapped_json5 lib m f e
              \<and> Errorf (''Unsupported input type: '' @ Sprintf_q lib (InputFormat m))
                 \<noteq> errWrapped_hcl lib m e)"
  using assms
  by (auto simp add: run_def run_switch_def case_default_def errWrapped_json_def
      errWrapped_json5_def errWrapped_hcl_def Wrap_def split: error.splits liberror.splits)

theorem unsupported_format_witness:
  "run sample_library (sample_world ''{}'') (sample_mode ''yaml'' ''-'' False) =
     (Failure (Errorf (''Unsupported input type: '' @ quote_plain ''yaml'')), [])"
proof -
  have "InputFormat (sample_mode ''yaml'' ''-'' False) \<notin> {''*'', ''json'', ''json5'', ''hcl''}"
    by (simp add: sample_mode_def)
  from unsupported_format [OF this sample_input, of sample_library]
  show ?thesis by (simp add: sample_format sample_quote)
qed

section \<open>The diagnostic locator\<close>

text \<open>
  The loop of \<open>highlightPosition\<close> reads the first \<open>pos\<close> bytes of the file, or all of it
  when it is shorter, or nothing when \<open>pos\<close> is negative: the bytes \<open>take (nat pos) f\<close>.
  Its state is then the one that \<open>state_after\<close> describes.
\<close>

lemma split_lines_not_Nil: "split_lines s \<noteq> []"
  by (cases s) simp_all

lemma length_split_lines: "length (split_lines s) = 1 + count_list s newline"
proof (induction s)
  case Nil
  show ?case by simp
next
  case (Cons c s)
  have "length (tl (split_lines s)) = length (split_lines s) - 1" by simp
  with Cons split_lines_not_Nil [of s] show ?case by (cases "split_lines s") auto
qed

lemma split_lines_snoc:
  "split_lines (s @ [b]) =
     (if b = newline then split_lines s @ [[]]
      else butlast (split_lines s) @ [last (split_lines s) @ [b]])"
proof (induction s)
  case Nil
  show ?case by simp
next
  case (Cons c s)
  obtain x xs where sl: "split_lines s = x # xs"
    using split_lines_not_Nil [of s] by (cases "split_lines s") auto
  show ?case
    using Cons sl by (cases xs) auto
qed

lemma split_lines_append:
  "split_lines (a @ b) =
     butlast (split_lines a) @ [last (split_lines a) @ hd (split_lines b)] @ tl (split_lines b)"
proof (induction a)
  case Nil
  show ?case using split_lines_not_Nil [of b] by simp
next
  case (Cons c a)
  obtain x xs where sl: "split_lines a = x # xs"
    using split_lines_not_Nil [of a] by (cases "split_lines a") auto
  show ?case
    using Cons sl by (cases xs) auto
qed

lemma newline_length_split_lines: "newline \<in> set s \<Longrightarrow> 2 \<le> length (split_lines s)"
proof -
  assume "newline \<in> set s"
  then have "count_list s newline \<noteq> 0" by (simp add: count_list_0_iff)
  then show ?thesis by (simp add: length_split_lines)
qed

lemma state_after_Nil: "state_after [] = (1, 0, [], [])"
  by (simp add: state_after_def)

lemma state_after_snoc:
  "state_after (done @ [b]) =
     (case state_after done of
        (line, col, lastLine, thisLine) \<Rightarrow>
          if b = newline then (line + 1, 1, thisLine, [])
          else (line, col + 1, lastLine, thisLine @ [b]))"
proof (cases "b = newline")
  case True
  then show ?thesis
    using split_lines_not_Nil [of "done"]
    by (simp add: state_after_def split_lines_snoc nth_append last_conv_nth)
next
  case False
  show ?thesis
  proof (cases "newline \<in> set done")
    case True
    then have "2 \<le> length (split_lines done)" by (rule newline_length_split_lines)
    then have "length (split_lines done) - 2 < length (butlast (split_lines done))"
      by simp
    then have "(butlast (split_lines done) @ [last (split_lines done) @ [b]])
                 ! (length (split_lines done) - 2)
               = split_lines done ! (length (split_lines done) - 2)"
      by (simp add: nth_append nth_butlast)
    then show ?thesis
      using False True split_lines_not_Nil [of "done"]
      by (simp add: state_after_def split_lines_snoc)
  next
    case nonl: False
    then show ?thesis
      using False split_lines_not_Nil [of "done"]
      by (simp add: state_after_def split_lines_snoc)
  qed
qed

lemma highlightPosition_loop_state:
  "highlightPosition_loop br n pos (state_after done) =
     state_after (done @ take (nat (pos - n)) br)"
proof (induction br arbitrary: n "done")
  case Nil
  show ?case by (cases "state_after done") simp
next
  case (Cons b br)
  obtain line col lastLine thisLine where st: "state_after done = (line, col, lastLine, thisLine)"
    by (cases "state_after done") auto
  show ?case
  proof (cases "n < pos")
    case True
    then have "nat (pos - n) = Suc (nat (pos - (n + 1)))" by arith
    then have tk: "take (nat (pos - n)) (b # br) = b # take (nat (pos - (n + 1))) br"
      by simp
    have next_state: "state_after (done @ [b]) =
        (if b = newline then (line + 1, 1, thisLine, [])
         else (line, col + 1, lastLine, thisLine @ [b]))"
      by (simp add: state_after_snoc st)
    show ?thesis
      using True Cons.IH [of "n + 1" "done @ [b]"] next_state tk
      by (cases "b = newline") (simp_all add: st)
  next
    case False
    then show ?thesis by (simp add: st)
  qed
qed

lemma highlightPosition_state:
  "highlightPosition_loop f 0 pos (1, 0, [], []) = state_after (take (nat pos) f)"
  using highlightPosition_loop_state [of f 0 pos "[]"] by (simp add: state_after_Nil)

lemma highlightPosition_after:
  "highlightPosition f pos =
     (case state_after (take (nat pos) f) of
        (line, col, lastLine, thisLine) \<Rightarrow>
          (line, col,
           (if line > 1 then fmt_5d (line - 1) @ '': '' @ lastLine @ [newline] else [])
           @ fmt_5d line @ '': '' @ thisLine @ [newline]
           @ replicate (col + 5) CHR '' '' @ ''^'' @ [newline]))"
  unfolding highlightPosition_def highlightPosition_state Let_def by simp

lemma highlightPosition_line_col:
  "fst (highlightPosition f pos) = 1 + count_list (take (nat pos) f) newline"
  "fst (snd (highlightPosition f pos)) =
     (if newline \<in> set (take (nat pos) f)
      then 1 + length (last (split_lines (take (nat pos) f)))
      else length (take (nat pos) f))"
  by (simp_all add: highlightPosition_after state_after_def length_split_lines)

lemma split_lines_prefix_nth:
  assumes "i + 1 < length (split_lines a)"
  shows "split_lines (a @ b) ! i = split_lines a ! i"
proof -
  from assms have "i < length (butlast (split_lines a))" by simp
  then show ?thesis
    by (simp add: split_lines_append nth_append nth_butlast)
qed

lemma split_lines_prefix_last:
  "split_lines (a @ b) ! (length (split_lines a) - 1) = last (split_lines a) @ hd (split_lines b)"
  by (simp add: split_lines_append nth_append)

lemma sample_text_locate:
  "highlightPosition sample_text 3 =
     (2, 2, ''    1: x'' @ [newline] @ ''    2: a'' @ [newline] @ ''       ^'' @ [newline])"
  by (simp add: highlightPosition_def sample_text_def newline_def fmt_5d_def
      replicate_numeral decimal_digit)

lemma sample_text_lines: "split_lines sample_text = [''x'', ''abc'']"
  by (simp add: sample_text_def newline_def)

text \<open>
  C2.  The specification gives the column as the number of bytes since the last newline before
  the offset, plus one, so column 1 at offset 0.  The code does so after the first
  newline, where \<open>col\<close> is set to 1 and then counts the bytes; on the first line \<open>col\<close>
  starts at 0, the zero value of the named result, and is one less.  At offset 0 of the
  text \<open>abc\<close> the code returns line 1 and column 0, at offset 2 column 2; at offset 2 of
  the sample text, right behind its newline, it returns line 2 and column 1.
\<close>

theorem first_line_column:
  "highlightPosition ''abc'' 0 = (1, 0, ''    1: '' @ [newline] @ ''     ^'' @ [newline])
   \<and> highlightPosition ''abc'' 2 = (1, 2, ''    1: ab'' @ [newline] @ ''       ^'' @ [newline])
   \<and> highlightPosition sample_text 2 =
       (2, 1, ''    1: x'' @ [newline] @ ''    2: '' @ [newline] @ ''      ^'' @ [newline])"
  by (simp add: highlightPosition_def sample_text_def newline_def fmt_5d_def
      replicate_numeral decimal_digit)

text \<open>
  C8, as amended.  The snippet that \<open>highlightPosition\<close> returns with the line \<open>line\<close>
  and the column \<open>col\<close> is made of: the whole line before the error line, behind the
  prefix \<open>"%5d: "\<close> with its number, present exactly when \<open>line\<close> is not 1; then, behind
  the same prefix, the bytes of the error line that come before the offset, which is a
  beginning of the error line and not the whole of it; then a caret line of exactly
  \<open>col + 5\<close> spaces and a caret.
\<close>

theorem snippet_layout:
  assumes "highlightPosition f pos = (line, col, snippet)"
  shows "snippet =
           (if line \<noteq> 1
            then fmt_5d (line - 1) @ '': '' @ split_lines f ! (line - 2) @ [newline] else [])
           @ fmt_5d line @ '': '' @ last (split_lines (take (nat pos) f)) @ [newline]
           @ replicate (col + 5) CHR '' '' @ ''^'' @ [newline]
       \<and> last (split_lines (take (nat pos) f))
           = take (length (last (split_lines (take (nat pos) f)))) (split_lines f ! (line - 1))"
proof -
  let ?pre = "take (nat pos) f"
  have f: "f = ?pre @ drop (nat pos) f" by simp
  from assms have line: "line = length (split_lines ?pre)"
    and col: "col = (if newline \<in> set ?pre then 1 + length (last (split_lines ?pre)) else length ?pre)"
    and snip: "snippet =
        (if line > 1 then fmt_5d (line - 1) @ '': ''
            @ (if newline \<in> set ?pre then split_lines ?pre ! (length (split_lines ?pre) - 2) else [])
            @ [newline] else [])
        @ fmt_5d line @ '': '' @ last (split_lines ?pre) @ [newline]
        @ replicate (col + 5) CHR '' '' @ ''^'' @ [newline]"
    by (auto simp add: highlightPosition_after state_after_def)
  have nl: "line > 1 \<longleftrightarrow> newline \<in> set ?pre"
    using count_list_0_iff [of ?pre newline] by (auto simp add: line length_split_lines)
  have prev: "line > 1 \<Longrightarrow> split_lines f ! (line - 2) = split_lines ?pre ! (line - 2)"
  proof -
    assume "line > 1"
    then have "(line - 2) + 1 < length (split_lines ?pre)" using line by simp
    from split_lines_prefix_nth [OF this, of "drop (nat pos) f"] show ?thesis by simp
  qed
  have cur: "split_lines f ! (line - 1) = last (split_lines ?pre) @ hd (split_lines (drop (nat pos) f))"
    using split_lines_prefix_last [of ?pre "drop (nat pos) f"] by (simp add: line)
  have l1: "line \<noteq> 1 \<longleftrightarrow> line > 1"
    using split_lines_not_Nil [of ?pre] line by (cases "split_lines ?pre") auto
  show ?thesis
    using snip nl prev cur l1 line by auto
qed

theorem snippet_layout_witness:
  "''    1: x'' @ [newline] @ ''    2: a'' @ [newline] @ ''       ^'' @ [newline] =
     fmt_5d 1 @ '': '' @ ''x'' @ [newline] @ fmt_5d 2 @ '': '' @ ''a'' @ [newline]
     @ replicate (2 + 5) CHR '' '' @ ''^'' @ [newline]
   \<and> ''a'' = take 1 ''abc''"
  using snippet_layout [OF sample_text_locate]
  by (simp add: sample_text_lines) (simp add: sample_text_def newline_def)

text \<open>
  C8, as the specification states it, fails at offset 3 of the sample text, whose error line is
  \<open>abc\<close>: the snippet shows \<open>a\<close>, the one byte of that line before the offset, and its
  caret stands behind 7 spaces, which is \<open>col + 5\<close> for the column 2 and not \<open>col\<close>
  characters behind the prefix of 7 characters.
\<close>

theorem snippet_as_specified_counterexample:
  "highlightPosition sample_text 3 =
     (2, 2, ''    1: x'' @ [newline] @ ''    2: a'' @ [newline] @ ''       ^'' @ [newline])
   \<and> split_lines sample_text ! 1 = ''abc''
   \<and> spec_snippet sample_text 3 =
       ''    1: x'' @ [newline] @ ''    2: abc'' @ [newline] @ ''         ^'' @ [newline]
   \<and> snd (snd (highlightPosition sample_text 3)) \<noteq> spec_snippet sample_text 3"
  by (simp add: spec_snippet_def sample_text_locate sample_text_lines fmt_5d_def
      replicate_numeral decimal_digit)

section \<open>The messages of failed attempts\<close>

text \<open>
  C7, as amended.  A failed attempt reports the requested format \<open>m.InputFormat\<close>, which
  is the attempted one only when a format was requested by name and is \<open>"*"\<close> in detect
  mode.  When the decoder of JSON fails with a \<open>*json.SyntaxError\<close>, or the decoder of
  JSON5 with a \<open>*json5.SyntaxError\<close>, the text is \<open>unable to parse\<close>, the quoted input
  name, \<open>as\<close>, the quoted requested format, a colon and the message of the syntax
  error, then the line \<open>Syntax error at line L, column C (offset O):\<close> and the snippet,
  where \<open>L\<close>, \<open>C\<close> and the snippet are what \<open>highlightPosition\<close> returns for the offset
  \<open>O\<close>, and at the end a colon and the text of the parser's error.  Every other failed
  attempt, so every failed attempt of HCL, has the text
  \<open>unable to parse config file as\<close>, the quoted requested format, a colon and the text of
  the parser's error, which ends with the message of the decoder; it has no diagnostic
  block.
\<close>

theorem attempt_error_text:
  "(json_Decode lib buf = Inl (JsonSyntaxError msg off)
      \<and> highlightPosition f off = (line, col, highlight) \<longrightarrow>
    (\<exists>err. ParseJSON lib buf = Inl err
       \<and> Error (errWrapped_json lib m f err) =
           ''unable to parse '' @ Sprintf_q lib (InFilename m) @ '' as ''
           @ Sprintf_q lib (InputFormat m) @ '': '' @ msg @ [newline]
           @ ''Syntax error at line '' @ fmt_d (int line) @ '', column '' @ fmt_d (int col)
           @ '' (offset '' @ fmt_d off @ ''):'' @ [newline] @ highlight
           @ '': unable to decode JSON: '' @ msg))
 \<and> (json5_Decode lib buf = Inl (Json5SyntaxError msg off)
      \<and> highlightPosition f off = (line, col, highlight) \<longrightarrow>
    (\<exists>err. ParseJSON5 lib buf = Inl err
       \<and> Error (errWrapped_json5 lib m f err) =
           ''unable to parse '' @ Sprintf_q lib (InFilename m) @ '' as ''
           @ Sprintf_q lib (InputFormat m) @ '': '' @ msg @ [newline]
           @ ''Syntax error at line '' @ fmt_d (int line) @ '', column '' @ fmt_d (int col)
           @ '' (offset '' @ fmt_d off @ ''):'' @ [newline] @ highlight
           @ '': unable to decode JSON5: '' @ msg))
 \<and> (json_Decode lib buf = Inl e \<and> (\<forall>msg' off'. e \<noteq> JsonSyntaxError msg' off') \<longrightarrow>
    (\<exists>err. ParseJSON lib buf = Inl err
       \<and> Error (errWrapped_json lib m f err) =
           ''unable to parse config file as '' @ Sprintf_q lib (InputFormat m)
           @ '': unable to decode JSON: '' @ liberror_Error e))
 \<and> (json5_Decode lib buf = Inl e \<and> (\<forall>msg' off'. e \<noteq> Json5SyntaxError msg' off') \<longrightarrow>
    (\<exists>err. ParseJSON5 lib buf = Inl err
       \<and> Error (errWrapped_json5 lib m f err) =
           ''unable to parse config file as '' @ Sprintf_q lib (InputFormat m)
           @ '': unable to decode JSON5: '' @ liberror_Error e))
 \<and> (hcl_Decode lib buf = Inl e \<longrightarrow>
    (\<exists>err. ParseHCL lib buf = Inl err
       \<and> Error (errWrapped_hcl lib m err) =
           ''unable to parse config file as '' @ Sprintf_q lib (InputFormat m)
           @ '': unable to decode HCL: '' @ liberror_Error e))"
proof (intro conjI impI)
  assume "json_Decode lib buf = Inl (JsonSyntaxError msg off)
            \<and> highlightPosition f off = (line, col, highlight)"
  then show "\<exists>err. ParseJSON lib buf = Inl err
       \<and> Error (errWrapped_json lib m f err) =
           ''unable to parse '' @ Sprintf_q lib (InFilename m) @ '' as ''
           @ Sprintf_q lib (InputFormat m) @ '': '' @ msg @ [newline]
           @ ''Syntax error at line '' @ fmt_d (int line) @ '', column '' @ fmt_d (int col)
           @ '' (offset '' @ fmt_d off @ ''):'' @ [newline] @ highlight
           @ '': unable to decode JSON: '' @ msg"
    by (simp add: ParseJSON_def errWrapped_json_def Wrap_def syntax_error_message_def)
next
  assume "json5_Decode lib buf = Inl (Json5SyntaxError msg off)
            \<and> highlightPosition f off = (line, col, highlight)"
  then show "\<exists>err. ParseJSON5 lib buf = Inl err
       \<and> Error (errWrapped_json5 lib m f err) =
           ''unable to parse '' @ Sprintf_q lib (InFilename m) @ '' as ''
           @ Sprintf_q lib (InputFormat m) @ '': '' @ msg @ [newline]
           @ ''Syntax error at line '' @ fmt_d (int line) @ '', column '' @ fmt_d (int col)
           @ '' (offset '' @ fmt_d off @ ''):'' @ [newline] @ highlight
           @ '': unable to decode JSON5: '' @ msg"
    by (simp add: ParseJSON5_def errWrapped_json5_def Wrap_def syntax_error_message_def)
next
  assume "json_Decode lib buf = Inl e \<and> (\<forall>msg' off'. e \<noteq> JsonSyntaxError msg' off')"
  then show "\<exists>err. ParseJSON lib buf = Inl err
       \<and> Error (errWrapped_json lib m f err) =
           ''unable to parse config file as '' @ Sprintf_q lib (InputFormat m)
           @ '': unable to decode JSON: '' @ liberror_Error e"
    by (cases e) (simp_all add: ParseJSON_def errWrapped_json_def Wrap_def)
next
  assume "json5_Decode lib buf = Inl e \<and> (\<forall>msg' off'. e \<noteq> Json5SyntaxError msg' off')"
  then show "\<exists>err. ParseJSON5 lib buf = Inl err
       \<and> Error (errWrapped_json5 lib m f err) =
           ''unable to parse config file as '' @ Sprintf_q lib (InputFormat m)
           @ '': unable to decode JSON5: '' @ liberror_Error e"
    by (cases e) (simp_all add: ParseJSON5_def errWrapped_json5_def Wrap_def)
next
  assume "hcl_Decode lib buf = Inl e"
  then show "\<exists>err. ParseHCL lib buf = Inl err
       \<and> Error (errWrapped_hcl lib m err) =
           ''unable to parse config file as '' @ Sprintf_q lib (InputFormat m)
           @ '': unable to decode HCL: '' @ liberror_Error e"
    by (simp add: ParseHCL_def errWrapped_hcl_def Wrap_def)
qed

theorem attempt_error_text_witness:
  "Error (errWrapped_json sample_library (sample_mode ''json'' ''-'' False) ''}''
       (Wrap (Lib (JsonSyntaxError ''invalid character } looking for beginning of value'' 1))
          ''unable to decode JSON'')) =
     ''unable to parse '' @ quote_plain ''-'' @ '' as '' @ quote_plain ''json''
     @ '': invalid character } looking for beginning of value'' @ [newline]
     @ ''Syntax error at line 1, column 1 (offset 1):'' @ [newline]
     @ ''    1: }'' @ [newline] @ ''      ^'' @ [newline]
     @ '': unable to decode JSON: invalid character } looking for beginning of value''
   \<and> Error (errWrapped_json5 sample_library (sample_mode ''json'' ''-'' False) ''}''
       (Wrap (Lib (Json5SyntaxError ''invalid character } looking for beginning of value'' 1))
          ''unable to decode JSON5'')) =
     ''unable to parse '' @ quote_plain ''-'' @ '' as '' @ quote_plain ''json''
     @ '': invalid character } looking for beginning of value'' @ [newline]
     @ ''Syntax error at line 1, column 1 (offset 1):'' @ [newline]
     @ ''    1: }'' @ [newline] @ ''      ^'' @ [newline]
     @ '': unable to decode JSON5: invalid character } looking for beginning of value''
   \<and> Error (errWrapped_hcl sample_library (sample_mode ''json'' ''-'' False)
       (Wrap (Lib (OtherError ''At 1:1: illegal char'')) ''unable to decode HCL'')) =
     ''unable to parse config file as '' @ quote_plain ''json''
     @ '': unable to decode HCL: At 1:1: illegal char''
   \<and> Error (errWrapped_json sample_library (sample_mode ''json'' ''-'' False) []
       (Wrap (Lib (OtherError ''EOF'')) ''unable to decode JSON'')) =
     ''unable to parse config file as '' @ quote_plain ''json'' @ '': unable to decode JSON: EOF''
   \<and> Error (errWrapped_json5 sample_library (sample_mode ''json'' ''-'' False) []
       (Wrap (Lib (OtherError ''EOF'')) ''unable to decode JSON5'')) =
     ''unable to parse config file as '' @ quote_plain ''json'' @ '': unable to decode JSON5: EOF''"
  using attempt_error_text [where lib = sample_library and buf = "''}''" and f = "''}''"
      and msg = "''invalid character } looking for beginning of value''" and off = 1
      and line = 1 and col = 1
      and highlight = "''    1: }'' @ [newline] @ ''      ^'' @ [newline]"
      and e = "OtherError ''At 1:1: illegal char''"
      and m = "sample_mode ''json'' ''-'' False"]
    attempt_error_text [where lib = sample_library and buf = "[]" and f = "[]"
      and e = "OtherError ''EOF''" and m = "sample_mode ''json'' ''-'' False"]
  by (simp add: sample_decode_none sample_parse_none sample_parse_empty sample_locate_brace
      sample_quote sample_format sample_mode_fields fmt_d_def decimal_digit)

lemma sample_detect_key:
  "fst (run_switch sample_library (sample_mode ''*'' ''-'' False) ''{a:1}'' ''{a:1}'') =
     Break (VObject [(''a'', VNumber 1)])
       [errWrapped_json sample_library (sample_mode ''*'' ''-'' False) ''{a:1}''
          (Wrap (Lib (JsonSyntaxError
             ''invalid character a looking for beginning of object key string'' 2))
             ''unable to decode JSON'')]"
  by (simp add: run_switch_def case_json_def case_json5_def sample_parse_json5 sample_format)

lemma sample_key_text:
  "Error (errWrapped_json sample_library (sample_mode ''*'' ''-'' False) ''{a:1}''
          (Wrap (Lib (JsonSyntaxError
             ''invalid character a looking for beginning of object key string'' 2))
             ''unable to decode JSON'')) =
     ''unable to parse '' @ quote_plain ''-'' @ '' as '' @ quote_plain ''*''
      @ '': invalid character a looking for beginning of object key string'' @ [newline]
      @ ''Syntax error at line 1, column 2 (offset 2):'' @ [newline]
      @ ''    1: {a'' @ [newline] @ ''       ^'' @ [newline]
      @ '': unable to decode JSON: invalid character a looking for beginning of object key string''"
  by (simp add: errWrapped_json_def Wrap_def syntax_error_message_def sample_locate_key
      sample_quote sample_format sample_mode_fields fmt_d_def decimal_digit)

lemma sample_hcl_text:
  "fst (run_switch sample_library (sample_mode ''hcl'' ''-'' False) ''}'' ''}'') =
     Return (errWrapped_hcl sample_library (sample_mode ''hcl'' ''-'' False)
        (Wrap (Lib (OtherError ''At 1:1: illegal char'')) ''unable to decode HCL''))"
  "Error (errWrapped_hcl sample_library (sample_mode ''hcl'' ''-'' False)
        (Wrap (Lib (OtherError ''At 1:1: illegal char'')) ''unable to decode HCL'')) =
     ''unable to parse config file as '' @ quote_plain ''hcl''
      @ '': unable to decode HCL: At 1:1: illegal char''"
  by (simp_all add: run_switch_def case_hcl_def sample_parse_none sample_format
      errWrapped_hcl_def Wrap_def sample_quote)

text \<open>
  C7, as the specification states it, fails in detect mode on the document \<open>{a:1}\<close>: the attempt
  that failed is the one of strict JSON, and its message names the format \<open>"*"\<close>, not
  \<open>"json"\<close>.  And a failure of HCL, here on the document \<open>}\<close> with HCL requested, is not
  reported by the message of the decoder alone.
\<close>

theorem attempt_names_grammar_counterexample:
  "(case fst (run_switch sample_library (sample_mode ''*'' ''-'' False) ''{a:1}'' ''{a:1}'') of
      Break raw errList \<Rightarrow> map Error errList
    | Return err \<Rightarrow> []) =
     [''unable to parse '' @ quote_plain ''-'' @ '' as '' @ quote_plain ''*''
      @ '': invalid character a looking for beginning of object key string'' @ [newline]
      @ ''Syntax error at line 1, column 2 (offset 2):'' @ [newline]
      @ ''    1: {a'' @ [newline] @ ''       ^'' @ [newline]
      @ '': unable to decode JSON: invalid character a looking for beginning of object key string'']
   \<and> \<not> names_format sample_library (sample_mode ''*'' ''-'' False) ''json''
         (Error (errWrapped_json sample_library (sample_mode ''*'' ''-'' False) ''{a:1}''
            (Wrap (Lib (JsonSyntaxError
               ''invalid character a looking for beginning of object key string'' 2))
               ''unable to decode JSON'')))
   \<and> (case fst (run_switch sample_library (sample_mode ''hcl'' ''-'' False) ''}'' ''}'') of
        Break raw errList \<Rightarrow> []
      | Return err \<Rightarrow> Error err) =
       ''unable to parse config file as '' @ quote_plain ''hcl''
       @ '': unable to decode HCL: At 1:1: illegal char''"
  by (simp add: sample_detect_key sample_key_text sample_hcl_text names_format_def
      sample_quote sample_mode_fields quote_plain_def)

section \<open>The output\<close>

lemma run_output_Success:
  assumes "run_output lib w m raw = Success dest bytes"
  shows "dest = OutFilename m \<and> json_Encode lib (run_encoder m) raw = Inr bytes"
  using assms
  by (auto simp add: run_output_def Let_def split: if_splits sum.splits option.splits)

lemma run_Success:
  assumes "run lib w m = (Success dest bytes, calls)"
  shows "\<exists>raw. run_output lib w m raw = Success dest bytes"
  using assms
  by (auto simp add: run_def split: sum.splits prod.splits switch_outcome.splits)

lemma run_encoder_indented:
  "indented (run_encoder m) \<longleftrightarrow> PrettyPrint m \<and> OutFilename m = ''-''"
  by (simp add: run_encoder_def indented_def)

text \<open>
  C9, as amended.  When a run succeeds, it has written to the destination
  \<open>m.OutFilename\<close> the bytes that the encoder made from a decoded value, and the encoder
  was set to indent exactly when the pretty-print flag is set and the destination is
  standard output (\<open>"-"\<close>).
\<close>

theorem output_indentation:
  assumes "run lib w m = (Success dest bytes, calls)"
  shows "dest = OutFilename m
       \<and> (\<exists>raw. json_Encode lib (run_encoder m) raw = Inr bytes)
       \<and> (indented (run_encoder m) \<longleftrightarrow> PrettyPrint m \<and> OutFilename m = ''-'')"
proof -
  from run_Success [OF assms] obtain raw where "run_output lib w m raw = Success dest bytes" ..
  from run_output_Success [OF this] show ?thesis
    by (auto simp add: run_encoder_indented)
qed

lemma sample_run_key:
  "run sample_library (sample_world ''{a:1}'') (sample_mode ''*'' out pretty) =
     (run_output sample_library (sample_world ''{a:1}'') (sample_mode ''*'' out pretty)
        (VObject [(''a'', VNumber 1)]),
      [Call_ParseJSON, Call_ParseJSON5])"
  by (simp add: run_def sample_input run_switch_def case_json_def case_json5_def
      sample_parse_json5 sample_format)

lemma sample_output_stdout:
  "run_output sample_library (sample_world ''{a:1}'') (sample_mode ''*'' ''-'' True)
     (VObject [(''a'', VNumber 1)]) =
   Success ''-'' (''{'' @ [newline] @ ''    '' @ quote_plain ''a'' @ '': 1'' @ [newline]
                    @ ''}'' @ [newline])"
  by (simp add: run_output_def sample_mode_fields run_encoder_def sample_library_def
      sample_json_Encode_def indented_def)

lemma sample_output_file:
  "run_output sample_library (sample_world ''{a:1}'') (sample_mode ''*'' ''out.json'' True)
     (VObject [(''a'', VNumber 1)]) =
   Success ''out.json'' (''{'' @ quote_plain ''a'' @ '':1}'' @ [newline])"
  by (simp add: run_output_def sample_mode_fields run_encoder_def sample_library_def
      sample_json_Encode_def indented_def sample_world_def)

lemma sample_run_pretty_stdout:
  "run sample_library (sample_world ''{a:1}'') (sample_mode ''*'' ''-'' True) =
     (Success ''-'' (''{'' @ [newline] @ ''    '' @ quote_plain ''a'' @ '': 1'' @ [newline]
                      @ ''}'' @ [newline]),
      [Call_ParseJSON, Call_ParseJSON5])"
  by (simp add: sample_run_key sample_output_stdout)

theorem output_indentation_witness:
  "''-'' = OutFilename (sample_mode ''*'' ''-'' True)
   \<and> json_Encode sample_library (run_encoder (sample_mode ''*'' ''-'' True))
        (VObject [(''a'', VNumber 1)]) =
       Inr (''{'' @ [newline] @ ''    '' @ quote_plain ''a'' @ '': 1'' @ [newline]
              @ ''}'' @ [newline])
   \<and> indented (run_encoder (sample_mode ''*'' ''-'' True))"
  using output_indentation [OF sample_run_pretty_stdout]
  by (simp add: sample_mode_fields run_encoder_def sample_library_def sample_json_Encode_def
      indented_def)

text \<open>
  C9, as the specification states it, fails for an output file: with the pretty-print flag set
  and the destination \<open>out.json\<close> the run succeeds and writes the compact text.
\<close>

theorem pretty_file_counterexample:
  "run sample_library (sample_world ''{a:1}'') (sample_mode ''*'' ''out.json'' True) =
     (Success ''out.json'' (''{'' @ quote_plain ''a'' @ '':1}'' @ [newline]),
      [Call_ParseJSON, Call_ParseJSON5])
   \<and> PrettyPrint (sample_mode ''*'' ''out.json'' True)
   \<and> \<not> indented (run_encoder (sample_mode ''*'' ''out.json'' True))"
  by (simp add: sample_run_key sample_output_file sample_mode_fields run_encoder_def
      indented_def)

end
